theory Spec2Isabelle
  imports Complex_Main
begin

section \<open>JavaScript numbers\<close>

text \<open>
  The fee constants, the declared fee and the lamport balances are JavaScript numbers, that is
  IEEE-754 binary64 values.  A finite number is represented by the rational it denotes; every
  arithmetic operation computes the exact rational result and rounds it to the nearest binary64
  value, ties to even (\<open>d64\<close>).  The sign of zero is not represented: no operation of the
  program observes it.
\<close>

datatype jsnum = NaN | NInf | Fin rat | PInf

function halvings :: "rat \<Rightarrow> nat" where
  "halvings q = (if q < 2 then 0 else Suc (halvings (q / 2)))"
  by pat_completeness auto
termination
proof (relation "measure (\<lambda>q. nat \<lfloor>q\<rfloor>)")
  show "wf (measure (\<lambda>q. nat \<lfloor>q\<rfloor>))" by simp
next
  fix q :: rat
  assume big: "\<not> q < 2"
  then have "q / 2 \<le> q - 1" by simp
  then have "\<lfloor>q / 2\<rfloor> \<le> \<lfloor>q - 1\<rfloor>" by (rule floor_mono)
  moreover have "2 \<le> \<lfloor>q\<rfloor>" using big by (simp add: le_floor_iff)
  ultimately show "(q / 2, q) \<in> measure (\<lambda>q. nat \<lfloor>q\<rfloor>)" by simp
qed

function doublings :: "rat \<Rightarrow> nat" where
  "doublings q = (if q \<le> 0 \<or> 1 \<le> q then 0 else Suc (doublings (q * 2)))"
  by pat_completeness auto
termination
proof (relation "measure (\<lambda>q. nat \<lfloor>1 / q\<rfloor>)")
  show "wf (measure (\<lambda>q. nat \<lfloor>1 / q\<rfloor>))" by simp
next
  fix q :: rat
  assume "\<not> (q \<le> 0 \<or> 1 \<le> q)"
  then have q: "0 < q" "q < 1" by auto
  then have one: "1 \<le> \<lfloor>1 / q\<rfloor>" by (simp add: le_floor_iff)
  have "1 / q < of_int \<lfloor>1 / q\<rfloor> + 1" by linarith
  then have "1 / (q * 2) < (of_int \<lfloor>1 / q\<rfloor> + 1) / 2" by simp
  also have "\<dots> \<le> of_int \<lfloor>1 / q\<rfloor>" using one by simp
  finally have "\<lfloor>1 / (q * 2)\<rfloor> < \<lfloor>1 / q\<rfloor>" by (simp add: floor_less_iff)
  then show "(q * 2, q) \<in> measure (\<lambda>q. nat \<lfloor>1 / q\<rfloor>)" using one by simp
qed

definition pow2 :: "int \<Rightarrow> rat" where
  "pow2 e = (if 0 \<le> e then 2 ^ nat e else 1 / 2 ^ nat (- e))"

text \<open>The binary exponent of a positive rational: \<open>pow2 (binade a) \<le> a < pow2 (binade a + 1)\<close>.\<close>

definition binade :: "rat \<Rightarrow> int" where
  "binade a = (if 1 \<le> a then int (halvings a) else - int (doublings a))"

definition round_half_even :: "rat \<Rightarrow> int" where
  "round_half_even q =
     (let f = \<lfloor>q\<rfloor>; r = q - of_int f
      in if r < 1 / 2 then f
         else if 1 / 2 < r then f + 1
         else if even f then f else f + 1)"

text \<open>
  The unit in the last place of a binary64 value with 53 significant bits; below the normal
  range the spacing stays at \<open>pow2 (- 1074)\<close>.
\<close>

definition ulp_exp :: "rat \<Rightarrow> int" where
  "ulp_exp a = max (binade a - 52) (- 1074)"

definition round_to :: "int \<Rightarrow> rat \<Rightarrow> rat" where
  "round_to e a = of_int (round_half_even (a / pow2 e)) * pow2 e"

definition d64 :: "rat \<Rightarrow> jsnum" where
  "d64 q =
     (if q = 0 then Fin 0
      else if pow2 1024 \<le> round_to (ulp_exp \<bar>q\<bar>) \<bar>q\<bar>
        then (if q < 0 then NInf else PInf)
      else Fin (if q < 0 then - round_to (ulp_exp \<bar>q\<bar>) \<bar>q\<bar>
                else round_to (ulp_exp \<bar>q\<bar>) \<bar>q\<bar>))"

text \<open>The operator \<open>+\<close> on numbers.\<close>

fun js_add :: "jsnum \<Rightarrow> jsnum \<Rightarrow> jsnum" where
  "js_add NaN _ = NaN"
| "js_add _ NaN = NaN"
| "js_add PInf NInf = NaN"
| "js_add NInf PInf = NaN"
| "js_add PInf _ = PInf"
| "js_add _ PInf = PInf"
| "js_add NInf _ = NInf"
| "js_add _ NInf = NInf"
| "js_add (Fin a) (Fin b) = d64 (a + b)"

text \<open>The operator \<open>-\<close> on numbers.\<close>

fun js_sub :: "jsnum \<Rightarrow> jsnum \<Rightarrow> jsnum" where
  "js_sub NaN _ = NaN"
| "js_sub _ NaN = NaN"
| "js_sub PInf PInf = NaN"
| "js_sub NInf NInf = NaN"
| "js_sub PInf _ = PInf"
| "js_sub _ NInf = PInf"
| "js_sub NInf _ = NInf"
| "js_sub _ PInf = NInf"
| "js_sub (Fin a) (Fin b) = d64 (a - b)"

text \<open>The operator \<open>*\<close> on numbers.\<close>

definition js_sign :: "jsnum \<Rightarrow> int" where
  "js_sign x =
     (case x of
        NaN \<Rightarrow> 0
      | NInf \<Rightarrow> - 1
      | PInf \<Rightarrow> 1
      | Fin a \<Rightarrow> (if a < 0 then - 1 else if a = 0 then 0 else 1))"

fun js_mul :: "jsnum \<Rightarrow> jsnum \<Rightarrow> jsnum" where
  "js_mul NaN _ = NaN"
| "js_mul _ NaN = NaN"
| "js_mul (Fin a) (Fin b) = d64 (a * b)"
| "js_mul x y =
     (if js_sign x * js_sign y = 0 then NaN
      else if js_sign x * js_sign y < 0 then NInf else PInf)"

text \<open>
  The abstract relational comparison \<open>x < y\<close> of ECMAScript: \<open>None\<close> is its result
  \<open>undefined\<close>, returned when an operand is NaN.  The operator \<open><\<close> holds when the
  comparison is true; the operator \<open>>=\<close> holds when the comparison is false (and not when it
  is undefined).
\<close>

fun is_less_than :: "jsnum \<Rightarrow> jsnum \<Rightarrow> bool option" where
  "is_less_than NaN _ = None"
| "is_less_than _ NaN = None"
| "is_less_than PInf _ = Some False"
| "is_less_than _ NInf = Some False"
| "is_less_than NInf _ = Some True"
| "is_less_than _ PInf = Some True"
| "is_less_than (Fin a) (Fin b) = Some (a < b)"

definition js_lt :: "jsnum \<Rightarrow> jsnum \<Rightarrow> bool" where
  "js_lt x y = (is_less_than x y = Some True)"

definition js_ge :: "jsnum \<Rightarrow> jsnum \<Rightarrow> bool" where
  "js_ge x y = (is_less_than x y = Some False)"

section \<open>JSON values of a request body\<close>

datatype json =
    JUndefined
  | JNull
  | JBool bool
  | JNumber rat
  | JString string
  | JArray "json list"
  | JObject "(string \<times> json) list"

text \<open>Truthiness, as tested by \<open>if (v)\<close>.  A field absent from the body reads as \<open>undefined\<close>.\<close>

fun truthy :: "json \<Rightarrow> bool" where
  "truthy JUndefined = False"
| "truthy JNull = False"
| "truthy (JBool b) = b"
| "truthy (JNumber q) = (q \<noteq> 0)"
| "truthy (JString s) = (s \<noteq> [])"
| "truthy (JArray _) = True"
| "truthy (JObject _) = True"

datatype exn = TypeError | Failure string

text \<open>
  Property access \<open>v.k\<close>: a TypeError on \<open>undefined\<close> and \<open>null\<close>, the member of an
  object (the last one of that name, as \<open>JSON.parse\<close> keeps it), \<open>undefined\<close> on anything
  else.
\<close>

fun get_prop :: "json \<Rightarrow> string \<Rightarrow> exn + json" where
  "get_prop JUndefined k = Inl TypeError"
| "get_prop JNull k = Inl TypeError"
| "get_prop (JObject kvs) k =
     Inr (case map_of (rev kvs) k of None \<Rightarrow> JUndefined | Some v \<Rightarrow> v)"
| "get_prop _ k = Inr JUndefined"

section \<open>Configuration and responses\<close>

definition DEV_WALLET :: string where
  "DEV_WALLET = ''86tXdBQuoD2cR9SXJMJSZLsZotkLUFqT7kZkwd9nLChm''"

text \<open>The literals \<open>0.08\<close> and \<open>0.03\<close> denote the binary64 values nearest to them.\<close>

definition BASE_FEE_SOL :: jsnum where
  "BASE_FEE_SOL = d64 (8 / 100)"

definition EXTRA_OPTION_FEE_SOL :: jsnum where
  "EXTRA_OPTION_FEE_SOL = d64 (3 / 100)"

definition LAMPORTS_PER_SOL :: jsnum where
  "LAMPORTS_PER_SOL = Fin 1000000000"

datatype payload =
    TotalFee jsnum
  | Paid bool
  | Error string
  | Created string string string

record response =
  status :: nat
  payload :: payload

text \<open>\<open>res.json(b)\<close> answers with status 200, \<open>res.status(c).json(b)\<close> with status \<open>c\<close>.\<close>

definition json_response :: "payload \<Rightarrow> response" where
  "json_response b = \<lparr>status = 200, payload = b\<rparr>"

definition status_response :: "nat \<Rightarrow> payload \<Rightarrow> response" where
  "status_response c b = \<lparr>status = c, payload = b\<rparr>"

section \<open>The fee calculator: POST /calculate-fee\<close>

record fee_options =
  revokeMint :: json
  revokeFreeze :: json
  revokeMetadata :: json
  customMetadata :: json

definition calculate_fee :: "fee_options \<Rightarrow> response" where
  "calculate_fee body =
     (let totalFee = BASE_FEE_SOL;
          totalFee = (if truthy (revokeMint body)
                      then js_add totalFee EXTRA_OPTION_FEE_SOL else totalFee);
          totalFee = (if truthy (revokeFreeze body)
                      then js_add totalFee EXTRA_OPTION_FEE_SOL else totalFee);
          totalFee = (if truthy (revokeMetadata body)
                      then js_add totalFee EXTRA_OPTION_FEE_SOL else totalFee);
          totalFee = (if truthy (customMetadata body)
                      then js_add totalFee EXTRA_OPTION_FEE_SOL else totalFee)
      in json_response (TotalFee totalFee))"

text \<open>The number of options of a request that are set.\<close>

definition flags_set :: "fee_options \<Rightarrow> nat" where
  "flags_set body =
     length (filter truthy
       [revokeMint body, revokeFreeze body, revokeMetadata body, customMetadata body])"

section \<open>The ledger client and the token-program client\<close>

text \<open>
  A transaction record as \<open>connection.getTransaction\<close> returns it: the account keys of
  \<open>txn.transaction.message\<close>, each as its base58 string, and \<open>txn.meta\<close>, which is
  null for a record without metadata.
\<close>

record txn_meta =
  preBalances :: "rat list"
  postBalances :: "rat list"

record txn =
  accountKeys :: "string list"
  meta :: "txn_meta option"

record keypair =
  publicKey :: string
  secretKey :: "nat list"

datatype authority_type = MintTokens | FreezeAccount

text \<open>
  The calls a handler makes on the two clients.  A public key is its base58 string; in
  \<open>SetAuthority\<close> the arguments are the mint the call is made on, the account, the new
  authority (\<open>None\<close> for null), the authority type and the current authority.
\<close>

datatype call =
    GetSignaturesForAddress string nat
  | GetTransaction json "string option"
  | CreateMint keypair string string json
  | GetOrCreateAssociatedAccountInfo string string
  | MintTo string string string json
  | SetAuthority string string "string option" authority_type string

text \<open>
  What the outside world answers: every call returns a value or throws.
  \<open>fromSecretKey\<close> is \<open>Keypair.fromSecretKey(Uint8Array.from(s))\<close>, a local computation
  that throws on a malformed secret.
\<close>

record world =
  getSignaturesForAddress :: "string \<Rightarrow> nat \<Rightarrow> exn + string list"
  getTransaction :: "json \<Rightarrow> string option \<Rightarrow> exn + txn option"
  fromSecretKey :: "json \<Rightarrow> exn + keypair"
  createMint :: "keypair \<Rightarrow> string \<Rightarrow> string \<Rightarrow> json \<Rightarrow> exn + string"
  getOrCreateAssociatedAccountInfo :: "string \<Rightarrow> string \<Rightarrow> exn + string"
  mintTo :: "string \<Rightarrow> string \<Rightarrow> string \<Rightarrow> json \<Rightarrow> exn + unit"
  setAuthority ::
    "string \<Rightarrow> string \<Rightarrow> string option \<Rightarrow> authority_type \<Rightarrow> string \<Rightarrow> exn + unit"

text \<open>
  A computation that may throw and that appends the calls it makes to a log.
\<close>

type_synonym 'a io = "call list \<Rightarrow> (exn + 'a) \<times> call list"

definition io_return :: "'a \<Rightarrow> 'a io" where
  "io_return x = (\<lambda>cs. (Inr x, cs))"

definition io_lift :: "exn + 'a \<Rightarrow> 'a io" where
  "io_lift r = (\<lambda>cs. (r, cs))"

definition io_call :: "call \<Rightarrow> exn + 'a \<Rightarrow> 'a io" where
  "io_call c r = (\<lambda>cs. (r, cs @ [c]))"

definition io_bind :: "'a io \<Rightarrow> ('a \<Rightarrow> 'b io) \<Rightarrow> 'b io" where
  "io_bind m f =
     (\<lambda>cs. case m cs of (Inl e, cs') \<Rightarrow> (Inl e, cs') | (Inr x, cs') \<Rightarrow> f x cs')"

text \<open>
  \<open>keys[i].toBase58()\<close> throws a TypeError when the list has no element \<open>i\<close>;
  \<open>balances[i]\<close> is \<open>undefined\<close> there, which arithmetic reads as NaN.
\<close>

definition key_at :: "string list \<Rightarrow> nat \<Rightarrow> exn + string" where
  "key_at keys i = (if i < length keys then Inr (keys ! i) else Inl TypeError)"

definition balance_at :: "rat list \<Rightarrow> nat \<Rightarrow> jsnum" where
  "balance_at balances i = (if i < length balances then Fin (balances ! i) else NaN)"

text \<open>\<open>meta.preBalances[0] - meta.postBalances[0]\<close>\<close>

definition balance_decrease :: "txn_meta \<Rightarrow> jsnum" where
  "balance_decrease m = js_sub (balance_at (preBalances m) 0) (balance_at (postBalances m) 0)"

section \<open>Requests\<close>

text \<open>
  The fields \<open>userWallet\<close> and \<open>expectedFee\<close> are common to the bodies of /verify-payment
  and /create-token.  \<open>expectedFee\<close> is only ever an operand of \<open>*\<close>, so the request
  carries the number that operand is converted to: NaN when the field is absent or not numeric.
\<close>

record payment_claim =
  userWallet :: json
  expectedFee :: jsnum

text \<open>
  The body of /create-token; \<open>supply_amount\<close> is its field \<open>supply\<close>.
\<close>

record mint_request = payment_claim +
  payerSecret :: json
  name :: json
  symbol :: json
  decimals :: json
  supply_amount :: json
  options :: json
  metadataURI :: json
  paymentSignature :: json

section \<open>History scan: POST /verify-payment\<close>

text \<open>
  The test of one fetched record in the loop of the handler: a null record and a record
  without metadata do not match.
\<close>

definition payment_matches :: "json \<Rightarrow> jsnum \<Rightarrow> txn option \<Rightarrow> exn + bool" where
  "payment_matches wallet fee fetched =
     (case fetched of
        None \<Rightarrow> Inr False
      | Some t \<Rightarrow>
          (case meta t of
             None \<Rightarrow> Inr False
           | Some m \<Rightarrow>
               (case key_at (accountKeys t) 0 of
                  Inl e \<Rightarrow> Inl e
                | Inr sender \<Rightarrow>
                    Inr (JString sender = wallet
                         \<and> js_ge (balance_decrease m) (js_mul fee LAMPORTS_PER_SOL)))))"

fun scan :: "world \<Rightarrow> json \<Rightarrow> jsnum \<Rightarrow> string list \<Rightarrow> bool io" where
  "scan w wallet fee [] cs = (Inr False, cs)"
| "scan w wallet fee (sig # sigs) cs =
     (case getTransaction w (JString sig) None of
        Inl e \<Rightarrow> (Inl e, cs @ [GetTransaction (JString sig) None])
      | Inr fetched \<Rightarrow>
          (case payment_matches wallet fee fetched of
             Inl e \<Rightarrow> (Inl e, cs @ [GetTransaction (JString sig) None])
           | Inr True \<Rightarrow> (Inr True, cs @ [GetTransaction (JString sig) None])
           | Inr False \<Rightarrow> scan w wallet fee sigs (cs @ [GetTransaction (JString sig) None])))"

text \<open>
  The handler has no try block: an exception thrown inside it leaves the handler without any
  response having been sent.
\<close>

datatype outcome = Responded response | Unhandled exn

definition verify_payment :: "world \<Rightarrow> 'a payment_claim_scheme \<Rightarrow> outcome \<times> call list" where
  "verify_payment w req =
     (case io_bind
             (io_call (GetSignaturesForAddress DEV_WALLET 50)
                (getSignaturesForAddress w DEV_WALLET 50))
             (scan w (userWallet req) (expectedFee req)) []
      of (Inl e, cs) \<Rightarrow> (Unhandled e, cs)
       | (Inr paid, cs) \<Rightarrow> (Responded (json_response (Paid paid)), cs))"

section \<open>Token creation: POST /create-token\<close>

datatype verdict =
    Verified
  | InvalidTransaction
  | SenderMismatch
  | ReceiverMismatch
  | AmountMismatch

text \<open>Step 1 of the handler, on the record fetched for the payment signature.\<close>

definition verify_reference :: "json \<Rightarrow> jsnum \<Rightarrow> txn option \<Rightarrow> exn + verdict" where
  "verify_reference wallet fee fetched =
     (case fetched of
        None \<Rightarrow> Inr InvalidTransaction
      | Some t \<Rightarrow>
          (case meta t of
             None \<Rightarrow> Inr InvalidTransaction
           | Some m \<Rightarrow>
               (case key_at (accountKeys t) 0 of
                  Inl e \<Rightarrow> Inl e
                | Inr sender \<Rightarrow>
                    (case key_at (accountKeys t) 1 of
                       Inl e \<Rightarrow> Inl e
                     | Inr receiver \<Rightarrow>
                         if JString sender \<noteq> wallet then Inr SenderMismatch
                         else if receiver \<noteq> DEV_WALLET then Inr ReceiverMismatch
                         else if js_lt (balance_decrease m) (js_mul fee LAMPORTS_PER_SOL)
                           then Inr AmountMismatch
                         else Inr Verified))))"

text \<open>The message of each early return.\<close>

fun reason :: "verdict \<Rightarrow> string" where
  "reason InvalidTransaction = ''Invalid payment transaction.''"
| "reason SenderMismatch = ''Payment sender does not match wallet.''"
| "reason ReceiverMismatch = ''Payment receiver does not match dev wallet.''"
| "reason AmountMismatch = ''Incorrect payment amount.''"
| "reason Verified = []"

definition rejection :: "verdict \<Rightarrow> response option" where
  "rejection v = (if v = Verified then None else Some (status_response 400 (Error (reason v))))"

text \<open>The part of the handler after the payment is verified.\<close>

definition revoke :: "world \<Rightarrow> string \<Rightarrow> authority_type \<Rightarrow> string \<Rightarrow> unit io" where
  "revoke w mint ty payer =
     io_call (SetAuthority mint mint None ty payer) (setAuthority w mint mint None ty payer)"

definition mint_token :: "world \<Rightarrow> mint_request \<Rightarrow> response io" where
  "mint_token w req =
     io_bind (io_lift (fromSecretKey w (payerSecret req))) (\<lambda>payer.
     io_bind (io_call (CreateMint payer (publicKey payer) (publicKey payer) (decimals req))
                (createMint w payer (publicKey payer) (publicKey payer) (decimals req)))
       (\<lambda>mint.
     io_bind (io_call (GetOrCreateAssociatedAccountInfo mint (publicKey payer))
                (getOrCreateAssociatedAccountInfo w mint (publicKey payer)))
       (\<lambda>tokenAccount.
     io_bind (io_call (MintTo mint tokenAccount (publicKey payer) (supply_amount req))
                (mintTo w mint tokenAccount (publicKey payer) (supply_amount req)))
       (\<lambda>_.
     io_bind (io_lift (get_prop (options req) ''revokeMint'')) (\<lambda>revokeMint.
     io_bind (if truthy revokeMint then revoke w mint MintTokens (publicKey payer)
              else io_return ())
       (\<lambda>_.
     io_bind (io_lift (get_prop (options req) ''revokeFreeze'')) (\<lambda>revokeFreeze.
     io_bind (if truthy revokeFreeze then revoke w mint FreezeAccount (publicKey payer)
              else io_return ())
       (\<lambda>_.
     io_return (json_response
       (Created mint tokenAccount ''Token created successfully!''))))))))))"

definition fetch_payment :: "mint_request \<Rightarrow> call" where
  "fetch_payment req = GetTransaction (paymentSignature req) (Some ''confirmed'')"

definition create_token :: "world \<Rightarrow> mint_request \<Rightarrow> response \<times> call list" where
  "create_token w req =
     (case io_bind
             (io_call (fetch_payment req)
                (getTransaction w (paymentSignature req) (Some ''confirmed'')))
             (\<lambda>fetched.
                io_bind
                  (io_lift (verify_reference (userWallet req) (expectedFee req) fetched))
                  (\<lambda>v. case rejection v of
                          Some r \<Rightarrow> io_return r
                        | None \<Rightarrow> mint_token w req)) []
      of (Inr r, cs) \<Rightarrow> (r, cs)
       | (Inl e, cs) \<Rightarrow> (status_response 500 (Error ''Token creation failed.''), cs))"

section \<open>The effect of token-program calls on a mint\<close>

text \<open>
  The authorities of each mint after a sequence of calls, as the token program documents
  its instructions: creating a mint records the two authorities given, and a set-authority
  call that returns has replaced the authority of its type on the account.  A call that
  threw changed nothing.
\<close>

record mint_info =
  mintAuthority :: "string option"
  freezeAuthority :: "string option"

fun token_effect :: "world \<Rightarrow> call \<Rightarrow> (string \<rightharpoonup> mint_info) \<Rightarrow> (string \<rightharpoonup> mint_info)" where
  "token_effect w (CreateMint payer ma fa d) st =
     (case createMint w payer ma fa d of
        Inl e \<Rightarrow> st
      | Inr mint \<Rightarrow> st(mint \<mapsto> \<lparr>mintAuthority = Some ma, freezeAuthority = Some fa\<rparr>))"
| "token_effect w (SetAuthority mint account new ty cur) st =
     (case setAuthority w mint account new ty cur of
        Inl e \<Rightarrow> st
      | Inr u \<Rightarrow>
          (case st account of
             None \<Rightarrow> st
           | Some info \<Rightarrow>
               (case ty of
                  MintTokens \<Rightarrow> st(account \<mapsto> info\<lparr>mintAuthority := new\<rparr>)
                | FreezeAccount \<Rightarrow> st(account \<mapsto> info\<lparr>freezeAuthority := new\<rparr>))))"
| "token_effect w _ st = st"

definition token_effects :: "world \<Rightarrow> call list \<Rightarrow> (string \<rightharpoonup> mint_info)" where
  "token_effects w cs = fold (token_effect w) cs Map.empty"

section \<open>Notions used to state the properties\<close>

text \<open>
  One turn of the loop of /verify-payment: the fetch of a signature and the test of the
  fetched record.
\<close>

definition probe :: "world \<Rightarrow> json \<Rightarrow> jsnum \<Rightarrow> string \<Rightarrow> exn + bool" where
  "probe w wallet fee sig =
     (case getTransaction w (JString sig) None of
        Inl e \<Rightarrow> Inl e
      | Inr fetched \<Rightarrow> payment_matches wallet fee fetched)"

text \<open>
  The signatures a scan goes through: those before the first hit, and the first hit.
\<close>

definition examined :: "(string \<Rightarrow> bool) \<Rightarrow> string list \<Rightarrow> string list" where
  "examined hit sigs =
     takeWhile (\<lambda>s. \<not> hit s) sigs @ take 1 (dropWhile (\<lambda>s. \<not> hit s) sigs)"


definition fetches :: "string list \<Rightarrow> call list" where
  "fetches sigs = map (\<lambda>s. GetTransaction (JString s) None) sigs"

fun is_set_authority :: "call \<Rightarrow> bool" where
  "is_set_authority (SetAuthority mint account new ty cur) = True"
| "is_set_authority _ = False"

section \<open>Example scenarios\<close>

text \<open>
  A transfer of \<open>lamports\<close> from \<open>sender\<close>, whose balance was one SOL, to \<open>receiver\<close>;
  the third account is the system program.  In the example world the ledger holds the
  signatures \<open>history\<close>, newest first, and the records \<open>records\<close>, and every token-program
  call succeeds.  The example requests declare a fee of 0.11 SOL.
\<close>

definition payer_wallet :: string where
  "payer_wallet = ''4Nd1mBQtrMJVYVfKf2PJy9NZUZdTAsp7D4xWLs4gDB4T''"

definition other_wallet :: string where
  "other_wallet = ''9xQeWvG816bUx9EPjHmaT23yvVM2ZWbrrpZb9PusVFin''"

definition transfer_txn :: "string \<Rightarrow> string \<Rightarrow> rat \<Rightarrow> txn" where
  "transfer_txn sender receiver lamports =
     \<lparr>accountKeys = [sender, receiver, ''11111111111111111111111111111111''],
      meta = Some \<lparr>preBalances = [1000000000, 0, 1],
                   postBalances = [1000000000 - lamports, lamports, 1]\<rparr>\<rparr>"

definition example_world :: "string list \<Rightarrow> (string \<Rightarrow> txn option) \<Rightarrow> world" where
  "example_world history records =
     \<lparr>getSignaturesForAddress = (\<lambda>address limit. Inr (take limit history)),
      getTransaction =
        (\<lambda>sig commitment. case sig of JString s \<Rightarrow> Inr (records s) | _ \<Rightarrow> Inl TypeError),
      fromSecretKey = (\<lambda>secret. Inr \<lparr>publicKey = payer_wallet, secretKey = []\<rparr>),
      createMint = (\<lambda>payer ma fa d. Inr ''mint-address''),
      getOrCreateAssociatedAccountInfo = (\<lambda>mint owner. Inr ''token-account-address''),
      mintTo = (\<lambda>mint dest authority amount. Inr ()),
      setAuthority = (\<lambda>mint account new ty cur. Inr ())\<rparr>"

definition unreachable_world :: world where
  "unreachable_world =
     (example_world [] (\<lambda>s. None))
       \<lparr>getSignaturesForAddress := (\<lambda>address limit. Inl (Failure ''fetch failed''))\<rparr>"

definition payment_from :: "string \<Rightarrow> string \<Rightarrow> rat \<Rightarrow> string \<Rightarrow> txn option" where
  "payment_from sender receiver lamports =
     (\<lambda>s. if s = ''payment'' then Some (transfer_txn sender receiver lamports)
          else if s = ''other'' then Some (transfer_txn other_wallet DEV_WALLET lamports)
          else None)"

definition example_claim :: payment_claim where
  "example_claim = \<lparr>userWallet = JString payer_wallet, expectedFee = d64 (11 / 100)\<rparr>"

definition example_request :: "json \<Rightarrow> mint_request" where
  "example_request opts =
     \<lparr>userWallet = JString payer_wallet, expectedFee = d64 (11 / 100),
      payerSecret = JArray [], name = JString ''Coin'', symbol = JString ''CN'',
      decimals = JNumber 9, supply_amount = JNumber 1000000, options = opts,
      metadataURI = JUndefined, paymentSignature = JString ''payment''\<rparr>"

text \<open>
  A transaction without instructions: its only account is the fee payer, who pays the fee
  of 5000 lamports.  A transfer of 1.07 SOL whose sender's balance falls by exactly
  1070000000 lamports.  A ledger that holds one record, under the signature of the example
  requests.
\<close>

definition fee_only_txn :: "string \<Rightarrow> txn" where
  "fee_only_txn sender =
     \<lparr>accountKeys = [sender],
      meta = Some \<lparr>preBalances = [1000000000], postBalances = [999995000]\<rparr>\<rparr>"


definition only_payment :: "txn \<Rightarrow> string \<Rightarrow> txn option" where
  "only_payment t = (\<lambda>s. if s = ''payment'' then Some t else None)"

section \<open>Evaluating binary64 arithmetic\<close>

lemma floor_rat_numeral: "\<lfloor>(numeral a / numeral b :: rat)\<rfloor> = numeral a div numeral b"
  by (metis floor_divide_of_int_eq of_int_numeral)

lemmas d64_eval =
  d64_def ulp_exp_def round_to_def binade_def pow2_def round_half_even_def Let_def
  floor_rat_numeral

lemma base_fee_value: "BASE_FEE_SOL = Fin (5764607523034235 / 72057594037927936)"
  by (simp add: BASE_FEE_SOL_def d64_eval)

lemma extra_fee_value: "EXTRA_OPTION_FEE_SOL = Fin (1080863910568919 / 36028797018963968)"
  by (simp add: EXTRA_OPTION_FEE_SOL_def d64_eval)

lemma fee_one_option: "js_add BASE_FEE_SOL EXTRA_OPTION_FEE_SOL = d64 (11 / 100)"
  by (simp add: base_fee_value extra_fee_value d64_eval)

lemma fee_two_options:
  "js_add (js_add BASE_FEE_SOL EXTRA_OPTION_FEE_SOL) EXTRA_OPTION_FEE_SOL = d64 (14 / 100)"
  by (simp add: base_fee_value extra_fee_value d64_eval)

lemma fee_three_options:
  "js_add (js_add (js_add BASE_FEE_SOL EXTRA_OPTION_FEE_SOL) EXTRA_OPTION_FEE_SOL)
     EXTRA_OPTION_FEE_SOL = d64 (17 / 100)"
  by (simp add: base_fee_value extra_fee_value d64_eval)

lemma fee_four_options:
  "js_add (js_add (js_add (js_add BASE_FEE_SOL EXTRA_OPTION_FEE_SOL) EXTRA_OPTION_FEE_SOL)
     EXTRA_OPTION_FEE_SOL) EXTRA_OPTION_FEE_SOL = d64 (20 / 100)"
  by (simp add: base_fee_value extra_fee_value d64_eval)

section \<open>Lemmas about the checks and the handlers\<close>







lemma calculate_fee_iterates:
  "calculate_fee body =
     json_response (TotalFee
       (((\<lambda>t. js_add t EXTRA_OPTION_FEE_SOL) ^^ flags_set body) BASE_FEE_SOL))"
  by (simp add: calculate_fee_def flags_set_def)

lemma flags_set_le: "flags_set body \<le> 4"
  by (simp add: flags_set_def)

lemma fee_table:
  assumes "n \<le> 4"
  shows "((\<lambda>t. js_add t EXTRA_OPTION_FEE_SOL) ^^ n) BASE_FEE_SOL
           = d64 (8 / 100 + 3 / 100 * of_nat n)"
proof -
  from assms consider "n = 0" | "n = Suc 0" | "n = Suc (Suc 0)" | "n = Suc (Suc (Suc 0))"
    | "n = Suc (Suc (Suc (Suc 0)))"
    by linarith
  then show ?thesis
  proof cases
    case 1
    then show ?thesis by (simp add: BASE_FEE_SOL_def)
  next
    case 2
    then show ?thesis by (simp add: fee_one_option)
  next
    case 3
    then show ?thesis by (simp add: fee_two_options)
  next
    case 4
    then show ?thesis by (simp add: fee_three_options)
  next
    case 5
    then show ?thesis by (simp add: fee_four_options)
  qed
qed





lemmas io_defs = io_bind_def io_call_def io_lift_def io_return_def

lemma create_token_rejected:
  assumes "getTransaction w (paymentSignature req) (Some ''confirmed'') = Inr fetched"
    and "verify_reference (userWallet req) (expectedFee req) fetched = Inr v"
    and "v \<noteq> Verified"
  shows "create_token w req = (status_response 400 (Error (reason v)), [fetch_payment req])"
  using assms by (simp add: create_token_def io_defs rejection_def)

lemma create_token_fetch_failed:
  assumes "getTransaction w (paymentSignature req) (Some ''confirmed'') = Inl e"
  shows "create_token w req =
           (status_response 500 (Error ''Token creation failed.''), [fetch_payment req])"
  using assms by (simp add: create_token_def io_defs)

lemma create_token_check_threw:
  assumes "getTransaction w (paymentSignature req) (Some ''confirmed'') = Inr fetched"
    and "verify_reference (userWallet req) (expectedFee req) fetched = Inl e"
  shows "create_token w req =
           (status_response 500 (Error ''Token creation failed.''), [fetch_payment req])"
  using assms by (simp add: create_token_def io_defs)

lemma create_token_verified:
  assumes "getTransaction w (paymentSignature req) (Some ''confirmed'') = Inr fetched"
    and "verify_reference (userWallet req) (expectedFee req) fetched = Inr Verified"
  shows "create_token w req =
           (case mint_token w req [fetch_payment req] of
              (Inr r, cs) \<Rightarrow> (r, cs)
            | (Inl e, cs) \<Rightarrow> (status_response 500 (Error ''Token creation failed.''), cs))"
  using assms by (simp add: create_token_def io_defs rejection_def)

lemma mint_token_extends: "\<exists>rest. snd (mint_token w req cs) = cs @ rest"
  by (auto simp: mint_token_def revoke_def io_defs split: sum.splits prod.splits)

lemma unverified_only_fetches:
  "snd (create_token w req) = [fetch_payment req]
   \<or> (\<exists>fetched. getTransaction w (paymentSignature req) (Some ''confirmed'') = Inr fetched
         \<and> verify_reference (userWallet req) (expectedFee req) fetched = Inr Verified)"
proof (cases "getTransaction w (paymentSignature req) (Some ''confirmed'')")
  case (Inl e)
  then show ?thesis by (simp add: create_token_fetch_failed)
next
  case (Inr fetched)
  show ?thesis
  proof (cases "verify_reference (userWallet req) (expectedFee req) fetched")
    case (Inl e)
    with Inr show ?thesis by (simp add: create_token_check_threw)
  next
    case v: (Inr v)
    show ?thesis
    proof (cases "v = Verified")
      case True
      with Inr v show ?thesis by simp
    next
      case False
      with Inr v show ?thesis by (simp add: create_token_rejected)
    qed
  qed
qed

lemma fetch_comes_first: "\<exists>rest. snd (create_token w req) = fetch_payment req # rest"
proof -
  from unverified_only_fetches [of w req] show ?thesis
  proof
    assume "snd (create_token w req) = [fetch_payment req]"
    then show ?thesis by simp
  next
    assume "\<exists>fetched. getTransaction w (paymentSignature req) (Some ''confirmed'') = Inr fetched
         \<and> verify_reference (userWallet req) (expectedFee req) fetched = Inr Verified"
    then obtain fetched where
      f: "getTransaction w (paymentSignature req) (Some ''confirmed'') = Inr fetched"
      and v: "verify_reference (userWallet req) (expectedFee req) fetched = Inr Verified"
      by blast
    obtain rest where "snd (mint_token w req [fetch_payment req]) = [fetch_payment req] @ rest"
      using mint_token_extends by blast
    then show ?thesis
      by (auto simp: create_token_verified [OF f v] split: prod.splits sum.splits)
  qed
qed

text \<open>
  Read as the JavaScript expression \<open>0.08 + 0.03 * 3\<close>, base plus surcharge times three is
  0.16999999999999998, one unit in the last place below the fee 0.17 that three additions of
  the surcharge give.
\<close>

lemma three_options_as_product:
  "js_add BASE_FEE_SOL (js_mul EXTRA_OPTION_FEE_SOL (Fin 3)) =
     Fin (6124895493223874 / 36028797018963968)
   \<and> d64 (17 / 100) = Fin (6124895493223875 / 36028797018963968)"
  by (simp add: base_fee_value extra_fee_value d64_eval)

section \<open>Lemmas about the history scan\<close>

lemma scan_step:
  "scan w wallet fee (s # sigs) cs =
     (case probe w wallet fee s of
        Inl e \<Rightarrow> (Inl e, cs @ [GetTransaction (JString s) None])
      | Inr True \<Rightarrow> (Inr True, cs @ [GetTransaction (JString s) None])
      | Inr False \<Rightarrow> scan w wallet fee sigs (cs @ [GetTransaction (JString s) None]))"
  by (simp add: probe_def split: sum.splits)

lemma scan_total:
  assumes "\<forall>s\<in>set sigs. \<exists>b. probe w wallet fee s = Inr b"
  shows "scan w wallet fee sigs cs =
           (Inr (\<exists>s\<in>set sigs. probe w wallet fee s = Inr True),
            cs @ fetches (examined (\<lambda>s. probe w wallet fee s = Inr True) sigs))"
  using assms
proof (induction sigs arbitrary: cs)
  case Nil
  then show ?case by (simp add: examined_def fetches_def)
next
  case (Cons s sigs)
  then obtain b where b: "probe w wallet fee s = Inr b" by auto
  show ?case
  proof (cases b)
    case True
    with b show ?thesis by (simp add: scan_step examined_def fetches_def del: scan.simps)
  next
    case False
    with b Cons show ?thesis by (simp add: scan_step examined_def fetches_def del: scan.simps)
  qed
qed

lemma examined_length: "length (examined hit sigs) \<le> length sigs"
proof -
  have "length (take 1 (dropWhile (\<lambda>s. \<not> hit s) sigs)) \<le> length (dropWhile (\<lambda>s. \<not> hit s) sigs)"
    by simp
  moreover have "length (takeWhile (\<lambda>s. \<not> hit s) sigs) + length (dropWhile (\<lambda>s. \<not> hit s) sigs)
      = length sigs"
    by (metis length_append takeWhile_dropWhile_id)
  ultimately show ?thesis by (simp add: examined_def)
qed





lemma verify_payment_total:
  assumes "getSignaturesForAddress w DEV_WALLET 50 = Inr sigs"
    and "\<forall>s\<in>set sigs. \<exists>b. probe w (userWallet req) (expectedFee req) s = Inr b"
  shows "verify_payment w req =
           (Responded (json_response
              (Paid (\<exists>s\<in>set sigs. probe w (userWallet req) (expectedFee req) s = Inr True))),
            GetSignaturesForAddress DEV_WALLET 50
              # fetches (examined (\<lambda>s. probe w (userWallet req) (expectedFee req) s = Inr True)
                   sigs))"
  using assms(1) by (simp add: verify_payment_def io_defs scan_total [OF assms(2)])

lemma verify_payment_upstream_failure:
  assumes "getSignaturesForAddress w DEV_WALLET 50 = Inl e"
  shows "verify_payment w req = (Unhandled e, [GetSignaturesForAddress DEV_WALLET 50])"
  using assms by (simp add: verify_payment_def io_defs)

lemmas check_defs = verify_reference_def payment_matches_def key_at_def js_lt_def js_ge_def

lemmas handler_defs = create_token_def mint_token_def revoke_def verify_payment_def io_defs
  rejection_def fetch_payment_def json_response_def status_response_def

lemma examined_prefix: "\<exists>rest. sigs = examined hit sigs @ rest"
proof -
  have "sigs = takeWhile (\<lambda>s. \<not> hit s) sigs @ dropWhile (\<lambda>s. \<not> hit s) sigs"
    by simp
  also have "dropWhile (\<lambda>s. \<not> hit s) sigs =
      take 1 (dropWhile (\<lambda>s. \<not> hit s) sigs) @ drop 1 (dropWhile (\<lambda>s. \<not> hit s) sigs)"
    by simp
  finally have "sigs = examined hit sigs @ drop 1 (dropWhile (\<lambda>s. \<not> hit s) sigs)"
    by (simp add: examined_def)
  then show ?thesis ..
qed

section \<open>Lemmas about successful token creation\<close>

lemma mint_token_success:
  assumes "mint_token w req cs = (Inr r, cs')"
    and "fromSecretKey w (payerSecret req) = Inr payer"
    and "createMint w payer (publicKey payer) (publicKey payer) (decimals req) = Inr mint"
    and "get_prop (options req) ''revokeMint'' = Inr rm"
    and "get_prop (options req) ''revokeFreeze'' = Inr rf"
  shows "(truthy rm \<longrightarrow>
            setAuthority w mint mint None MintTokens (publicKey payer) = Inr ())
       \<and> (truthy rf \<longrightarrow>
            setAuthority w mint mint None FreezeAccount (publicKey payer) = Inr ())
       \<and> (\<exists>account.
             r = json_response (Created mint account ''Token created successfully!'')
           \<and> cs' = cs @
               [CreateMint payer (publicKey payer) (publicKey payer) (decimals req),
                GetOrCreateAssociatedAccountInfo mint (publicKey payer),
                MintTo mint account (publicKey payer) (supply_amount req)]
               @ (if truthy rm
                  then [SetAuthority mint mint None MintTokens (publicKey payer)] else [])
               @ (if truthy rf
                  then [SetAuthority mint mint None FreezeAccount (publicKey payer)] else []))"
  using assms
  by (auto simp: mint_token_def revoke_def io_defs split: sum.splits prod.splits if_splits)

lemma create_token_success:
  assumes "status (fst (create_token w req)) = 200"
  shows "\<exists>r cs. mint_token w req [fetch_payment req] = (Inr r, cs) \<and> create_token w req = (r, cs)"
proof (cases "getTransaction w (paymentSignature req) (Some ''confirmed'')")
  case (Inl e)
  with assms show ?thesis by (simp add: create_token_fetch_failed status_response_def)
next
  case (Inr fetched)
  show ?thesis
  proof (cases "verify_reference (userWallet req) (expectedFee req) fetched")
    case (Inl e)
    with Inr assms show ?thesis by (simp add: create_token_check_threw status_response_def)
  next
    case v: (Inr v)
    show ?thesis
    proof (cases "v = Verified")
      case False
      with Inr v assms show ?thesis by (simp add: create_token_rejected status_response_def)
    next
      case True
      with Inr v assms show ?thesis
        by (auto simp: create_token_verified status_response_def split: prod.splits sum.splits)
    qed
  qed
qed

section \<open>Evaluating the example scenarios\<close>

lemma quoted_fee_lamports: "js_mul (d64 (11 / 100)) LAMPORTS_PER_SOL = Fin 110000000"
  by (simp add: LAMPORTS_PER_SOL_def d64_eval)

lemma d64_exact_fee: "d64 110000000 = Fin 110000000"
  by (simp add: d64_eval)

lemma d64_short_fee: "d64 109999999 = Fin 109999999"
  by (simp add: d64_eval)

lemma wallets_differ: "payer_wallet \<noteq> other_wallet" "other_wallet \<noteq> DEV_WALLET"
  "payer_wallet \<noteq> DEV_WALLET"
  by (simp_all add: payer_wallet_def other_wallet_def DEV_WALLET_def)

lemmas record_defs =
  payment_from_def transfer_txn_def example_claim_def example_request_def
  balance_decrease_def balance_at_def quoted_fee_lamports d64_exact_fee d64_short_fee
  wallets_differ wallets_differ [symmetric]

lemmas example_defs = example_world_def record_defs

lemma probe_example:
  "probe (example_world history records) wallet fee s = payment_matches wallet fee (records s)"
  by (simp add: probe_def example_world_def)

section \<open>What the handlers answer on readable records\<close>

text \<open>
  The verification of /create-token in terms of the account list: with fewer than two
  account keys the extraction of sender and receiver throws before any comparison.
\<close>

lemma verify_reference_on_keys:
  assumes "meta t = Some m"
  shows "verify_reference wallet fee (Some t) =
     (case accountKeys t of
        sender # receiver # rest \<Rightarrow>
          if JString sender \<noteq> wallet then Inr SenderMismatch
          else if receiver \<noteq> DEV_WALLET then Inr ReceiverMismatch
          else if js_lt (balance_decrease m) (js_mul fee LAMPORTS_PER_SOL)
            then Inr AmountMismatch
          else Inr Verified
      | _ \<Rightarrow> Inl TypeError)"
  using assms
  by (auto simp: verify_reference_def key_at_def split: list.splits)

text \<open>
  When the fetch returns no record, a record without metadata, or a record with two account
  keys that fails one of the three comparisons, /create-token answers status 400 with the
  message of that failure and has made no call but the fetch.
\<close>

lemma create_token_rejections:
  assumes "getTransaction w (paymentSignature req) (Some ''confirmed'') = Inr fetched"
  shows "(fetched = None \<or> (\<exists>t. fetched = Some t \<and> meta t = None)
          \<longrightarrow> create_token w req =
                (status_response 400 (Error ''Invalid payment transaction.''),
                 [fetch_payment req]))
       \<and> (\<forall>t m sender receiver rest.
            fetched = Some t \<and> meta t = Some m \<and> accountKeys t = sender # receiver # rest
            \<longrightarrow> (JString sender \<noteq> userWallet req
                  \<longrightarrow> create_token w req =
                        (status_response 400 (Error ''Payment sender does not match wallet.''),
                         [fetch_payment req]))
                \<and> (JString sender = userWallet req \<and> receiver \<noteq> DEV_WALLET
                  \<longrightarrow> create_token w req =
                        (status_response 400
                           (Error ''Payment receiver does not match dev wallet.''),
                         [fetch_payment req]))
                \<and> (JString sender = userWallet req \<and> receiver = DEV_WALLET
                   \<and> js_lt (balance_decrease m) (js_mul (expectedFee req) LAMPORTS_PER_SOL)
                  \<longrightarrow> create_token w req =
                        (status_response 400 (Error ''Incorrect payment amount.''),
                         [fetch_payment req])))"
proof -
  have inv: "fetched = None \<or> (\<exists>t. fetched = Some t \<and> meta t = None) \<Longrightarrow>
      verify_reference (userWallet req) (expectedFee req) fetched = Inr InvalidTransaction"
    by (auto simp: verify_reference_def)
  show ?thesis
    using create_token_rejected [OF assms, of InvalidTransaction]
      create_token_rejected [OF assms, of SenderMismatch]
      create_token_rejected [OF assms, of ReceiverMismatch]
      create_token_rejected [OF assms, of AmountMismatch]
    by (auto simp: inv verify_reference_on_keys)
qed

text \<open>
  The thresholds of the five fees of the schedule are whole numbers of lamports.
\<close>

lemma schedule_thresholds:
  "js_mul (d64 (8 / 100)) LAMPORTS_PER_SOL = Fin 80000000"
  "js_mul (d64 (11 / 100)) LAMPORTS_PER_SOL = Fin 110000000"
  "js_mul (d64 (14 / 100)) LAMPORTS_PER_SOL = Fin 140000000"
  "js_mul (d64 (17 / 100)) LAMPORTS_PER_SOL = Fin 170000000"
  "js_mul (d64 (20 / 100)) LAMPORTS_PER_SOL = Fin 200000000"
  by (simp_all add: LAMPORTS_PER_SOL_def d64_eval)

text \<open>
  When the query for the signatures returns and every fetch the scan makes returns a record
  the test can read, /verify-payment answers status 200 with a boolean.
\<close>

lemma scan_total_examined:
  assumes "\<forall>s\<in>set (examined (\<lambda>s. probe w wallet fee s = Inr True) sigs).
             \<exists>b. probe w wallet fee s = Inr b"
  shows "scan w wallet fee sigs cs =
           (Inr (\<exists>s\<in>set sigs. probe w wallet fee s = Inr True),
            cs @ fetches (examined (\<lambda>s. probe w wallet fee s = Inr True) sigs))"
  using assms
proof (induction sigs arbitrary: cs)
  case Nil
  then show ?case by (simp add: examined_def fetches_def)
next
  case (Cons s sigs)
  have "s \<in> set (examined (\<lambda>s. probe w wallet fee s = Inr True) (s # sigs))"
    by (simp add: examined_def)
  with Cons.prems obtain b where b: "probe w wallet fee s = Inr b" by blast
  show ?case
  proof (cases b)
    case True
    with b show ?thesis by (simp add: scan_step examined_def fetches_def del: scan.simps)
  next
    case False
    with b have e: "examined (\<lambda>s. probe w wallet fee s = Inr True) (s # sigs) =
        s # examined (\<lambda>s. probe w wallet fee s = Inr True) sigs"
      by (simp add: examined_def)
    with Cons.prems have "\<forall>s\<in>set (examined (\<lambda>s. probe w wallet fee s = Inr True) sigs).
             \<exists>b. probe w wallet fee s = Inr b"
      by simp
    from Cons.IH [OF this] b False e show ?thesis
      by (simp add: scan_step fetches_def del: scan.simps)
  qed
qed

lemma verify_payment_answers:
  assumes "getSignaturesForAddress w DEV_WALLET 50 = Inr sigs"
    and "\<forall>s\<in>set (examined (\<lambda>s. probe w (userWallet req) (expectedFee req) s = Inr True) sigs).
           \<exists>b. probe w (userWallet req) (expectedFee req) s = Inr b"
  shows "fst (verify_payment w req) =
           Responded \<lparr>status = 200,
             payload = Paid (\<exists>s\<in>set sigs.
               probe w (userWallet req) (expectedFee req) s = Inr True)\<rparr>"
  using assms(1)
  by (simp add: verify_payment_def io_defs scan_total_examined [OF assms(2)] json_response_def)

section \<open>A remark on the amount test\<close>

text \<open>
  When the body declares no fee, \<open>expectedFee * LAMPORTS_PER_SOL\<close> is NaN and both
  comparisons with it are false: the verification of /create-token, which rejects when the
  decrease is less than the threshold, lets every amount pass, and the test of
  /verify-payment, which accepts when the decrease is at least the threshold, lets none
  pass.
\<close>

lemma undeclared_fee:
  "verify_reference (JString payer_wallet) NaN
     (Some (transfer_txn payer_wallet DEV_WALLET 1)) = Inr Verified
   \<and> payment_matches (JString payer_wallet) NaN
     (Some (transfer_txn payer_wallet DEV_WALLET 1)) = Inr False"
  by (simp add: check_defs transfer_txn_def balance_decrease_def balance_at_def d64_eval)

section \<open>The claims\<close>

text \<open>
  Claim C1.  The code departs from the claim on a payment record with a single account key.
  The payment signature names a transaction without instructions, whose only account is not
  the declared payer: a sender mismatch.  The handler reads the second account key before it
  compares the first, the read throws, and the answer is the generic status 500 instead of
  a 4xx that names the mismatch.  No token-program call is made: the fetch is the only
  call.
\<close>

theorem one_key_payment_gets_500:
  "accountKeys (fee_only_txn other_wallet) = [other_wallet]
   \<and> JString other_wallet \<noteq> userWallet (example_request (JObject []))
   \<and> create_token (example_world [] (only_payment (fee_only_txn other_wallet)))
        (example_request (JObject []))
       = (status_response 500 (Error ''Token creation failed.''),
          [GetTransaction (JString ''payment'') (Some ''confirmed'')])"
  by (simp add: check_defs handler_defs fee_only_txn_def only_payment_def
      example_world_def example_request_def wallets_differ wallets_differ [symmetric])







text \<open>
  Claim C4.  The code departs from the claim on a payment record with a single account key.
  For such a record the verification throws when it reads the second key, before the
  comparison of the sender: a wrong sender is not reported with the sender message, and a
  right sender, whose record has no second account that could be the operator address, is
  not reported with the receiver message.  Both get the generic answer of status 500.
\<close>

theorem one_key_payment_has_no_reason:
  "other_wallet \<noteq> payer_wallet
   \<and> verify_reference (JString payer_wallet) (d64 (11 / 100)) (Some (fee_only_txn other_wallet))
     = Inl TypeError
   \<and> fst (create_token (example_world [] (only_payment (fee_only_txn other_wallet)))
        (example_request (JObject [])))
       = status_response 500 (Error ''Token creation failed.'')
   \<and> verify_reference (JString payer_wallet) (d64 (11 / 100)) (Some (fee_only_txn payer_wallet))
     = Inl TypeError
   \<and> fst (create_token (example_world [] (only_payment (fee_only_txn payer_wallet)))
        (example_request (JObject [])))
       = status_response 500 (Error ''Token creation failed.'')"
  by (simp add: check_defs handler_defs fee_only_txn_def only_payment_def
      example_world_def example_request_def wallets_differ [symmetric])

text \<open>
  Claim C5.  For every assignment of the four options of a /calculate-fee request, the fee
  returned is the base fee plus the surcharge times the number of options that are set: the
  handler answers the binary64 number nearest to \<open>0.08 + 0.03 \<times> n\<close>, where \<open>n\<close> is the
  number of truthy options, which is the number whose decimal form is 0.08, 0.11, 0.14, 0.17
  or 0.2.  The request enters the result only through \<open>n\<close>, so neither which options are
  set nor their order matters.
\<close>

theorem calculate_fee_counts_options:
  "calculate_fee body =
     json_response (TotalFee (d64 (8 / 100 + 3 / 100 * of_nat (flags_set body))))"
  by (simp only: calculate_fee_iterates fee_table [OF flags_set_le])

text \<open>
  Claim C6.  Let the ledger client answer the query for the operator address, with limit
  50, by the first 50 signatures of the operator's history, newest first, and let no fetch
  of the scan throw.  Then /verify-payment answers \<open>paid: true\<close> exactly when one of these
  at most 50 records passes the test; it fetches the records in the order of the history, up
  to and including the first one that passes, and none after it; and nothing beyond the
  window enters the answer.
\<close>

theorem history_scan_window:
  assumes "getSignaturesForAddress w DEV_WALLET 50 = Inr (take 50 history)"
    and "\<forall>s\<in>set (take 50 history). \<exists>b. probe w (userWallet req) (expectedFee req) s = Inr b"
  shows "fst (verify_payment w req) =
           Responded (json_response (Paid
             (\<exists>s\<in>set (take 50 history).
                probe w (userWallet req) (expectedFee req) s = Inr True)))
       \<and> snd (verify_payment w req) =
           GetSignaturesForAddress DEV_WALLET 50
             # fetches (examined (\<lambda>s. probe w (userWallet req) (expectedFee req) s = Inr True)
                  (take 50 history))
       \<and> (\<exists>rest. take 50 history =
             examined (\<lambda>s. probe w (userWallet req) (expectedFee req) s = Inr True)
               (take 50 history) @ rest)
       \<and> length (examined (\<lambda>s. probe w (userWallet req) (expectedFee req) s = Inr True)
                   (take 50 history)) \<le> 50"
proof -
  have "length (examined (\<lambda>s. probe w (userWallet req) (expectedFee req) s = Inr True)
                   (take 50 history)) \<le> length (take 50 history)"
    by (rule examined_length)
  then have "length (examined (\<lambda>s. probe w (userWallet req) (expectedFee req) s = Inr True)
                   (take 50 history)) \<le> 50"
    by simp
  then show ?thesis
    using examined_prefix [of "take 50 history"
        "\<lambda>s. probe w (userWallet req) (expectedFee req) s = Inr True"]
    by (simp add: verify_payment_total [OF assms])
qed

text \<open>
  A qualifying payment that is the 51st record of the history is not found.
\<close>

theorem history_scan_window_witness:
  "fst (verify_payment
          (example_world (replicate 50 ''other'' @ [''payment''])
             (payment_from payer_wallet DEV_WALLET 110000000))
          example_claim) = Responded (json_response (Paid False))
   \<and> probe (example_world (replicate 50 ''other'' @ [''payment''])
             (payment_from payer_wallet DEV_WALLET 110000000))
        (userWallet example_claim) (expectedFee example_claim) ''payment'' = Inr True"
proof -
  let ?h = "replicate 50 ''other'' @ [''payment'']"
  let ?w = "example_world ?h (payment_from payer_wallet DEV_WALLET 110000000)"
  have w: "take 50 ?h = replicate 50 ''other''"
    by simp
  have o: "probe ?w (userWallet example_claim) (expectedFee example_claim) ''other'' = Inr False"
    by (simp add: probe_example check_defs record_defs)
  have p: "probe ?w (userWallet example_claim) (expectedFee example_claim) ''payment'' = Inr True"
    by (simp add: probe_example check_defs record_defs)
  have g: "getSignaturesForAddress ?w DEV_WALLET 50 = Inr (take 50 ?h)"
    by (simp add: example_world_def)
  have t: "\<forall>s\<in>set (take 50 ?h).
      \<exists>b. probe ?w (userWallet example_claim) (expectedFee example_claim) s = Inr b"
    using o by (simp only: w) auto
  have "fst (verify_payment ?w example_claim) = Responded (json_response (Paid False))"
    using history_scan_window [of ?w ?h example_claim, OF g t] o
    by (simp only: w) simp
  with p show ?thesis by simp
qed

text \<open>
  Claim C7.  The code departs from the claim when a ledger query throws.  The handler of
  /verify-payment has no try block, unlike the handlers of /generate-payment and
  /create-token: when the query for the signatures of the operator address throws, the
  exception leaves the handler and no response is sent, where the claim has status 200 with
  \<open>paid: false\<close>.
\<close>

theorem verify_payment_unanswered_on_failure:
  "fst (verify_payment unreachable_world example_claim) = Unhandled (Failure ''fetch failed'')"
  by (simp add: verify_payment_def io_defs unreachable_world_def example_world_def)

text \<open>
  Claim C8.  In a run of /create-token that answers with success, for the payer key pair
  the secret gives and the mint the token program created: the set-authority calls made are
  one for the mint authority if \<open>options.revokeMint\<close> is set, followed by one for the freeze
  authority if \<open>options.revokeFreeze\<close> is set, each setting that authority of the mint to
  none; and after the run each of the two authorities of the mint is none if its option is
  set and the payer's public key, as given at the creation of the mint, otherwise.  With
  both options unset no set-authority call is made.
\<close>

theorem create_token_authorities:
  assumes "status (fst (create_token w req)) = 200"
    and "fromSecretKey w (payerSecret req) = Inr payer"
    and "createMint w payer (publicKey payer) (publicKey payer) (decimals req) = Inr mint"
    and "get_prop (options req) ''revokeMint'' = Inr rm"
    and "get_prop (options req) ''revokeFreeze'' = Inr rf"
  shows "token_effects w (snd (create_token w req)) mint =
           Some \<lparr>mintAuthority = (if truthy rm then None else Some (publicKey payer)),
                 freezeAuthority = (if truthy rf then None else Some (publicKey payer))\<rparr>
       \<and> filter is_set_authority (snd (create_token w req)) =
           (if truthy rm then [SetAuthority mint mint None MintTokens (publicKey payer)] else [])
           @ (if truthy rf then [SetAuthority mint mint None FreezeAccount (publicKey payer)]
              else [])"
proof -
  obtain r cs where m: "mint_token w req [fetch_payment req] = (Inr r, cs)"
    and c: "create_token w req = (r, cs)"
    using create_token_success [OF assms(1)] by blast
  from mint_token_success [OF m assms(2-5)]
  have auth:
    "truthy rm \<longrightarrow> setAuthority w mint mint None MintTokens (publicKey payer) = Inr ()"
    "truthy rf \<longrightarrow> setAuthority w mint mint None FreezeAccount (publicKey payer) = Inr ()"
    and cs: "\<exists>account. cs = [fetch_payment req] @
               [CreateMint payer (publicKey payer) (publicKey payer) (decimals req),
                GetOrCreateAssociatedAccountInfo mint (publicKey payer),
                MintTo mint account (publicKey payer) (supply_amount req)]
               @ (if truthy rm
                  then [SetAuthority mint mint None MintTokens (publicKey payer)] else [])
               @ (if truthy rf
                  then [SetAuthority mint mint None FreezeAccount (publicKey payer)] else [])"
    by auto
  from cs obtain account where cs':
    "cs = [fetch_payment req] @
               [CreateMint payer (publicKey payer) (publicKey payer) (decimals req),
                GetOrCreateAssociatedAccountInfo mint (publicKey payer),
                MintTo mint account (publicKey payer) (supply_amount req)]
               @ (if truthy rm
                  then [SetAuthority mint mint None MintTokens (publicKey payer)] else [])
               @ (if truthy rf
                  then [SetAuthority mint mint None FreezeAccount (publicKey payer)] else [])"
    by blast
  have "token_effects w cs mint =
           Some \<lparr>mintAuthority = (if truthy rm then None else Some (publicKey payer)),
                 freezeAuthority = (if truthy rf then None else Some (publicKey payer))\<rparr>"
    using auth assms(3) by (simp add: cs' token_effects_def fetch_payment_def)
  moreover have "filter is_set_authority cs =
           (if truthy rm then [SetAuthority mint mint None MintTokens (publicKey payer)] else [])
           @ (if truthy rf then [SetAuthority mint mint None FreezeAccount (publicKey payer)]
              else [])"
    by (simp add: cs' fetch_payment_def)
  ultimately show ?thesis by (simp add: c)
qed

text \<open>
  Scenario 3, with both options false, and the same request with \<open>revokeMint\<close> set.
\<close>

theorem create_token_authorities_witness:
  "token_effects (example_world [] (payment_from payer_wallet DEV_WALLET 110000000))
     (snd (create_token (example_world [] (payment_from payer_wallet DEV_WALLET 110000000))
        (example_request (JObject [(''revokeMint'', JBool False),
                                    (''revokeFreeze'', JBool False)]))))
     ''mint-address'' =
     Some \<lparr>mintAuthority = Some payer_wallet, freezeAuthority = Some payer_wallet\<rparr>
   \<and> token_effects (example_world [] (payment_from payer_wallet DEV_WALLET 110000000))
     (snd (create_token (example_world [] (payment_from payer_wallet DEV_WALLET 110000000))
        (example_request (JObject [(''revokeMint'', JBool True),
                                    (''revokeFreeze'', JBool False)]))))
     ''mint-address'' =
     Some \<lparr>mintAuthority = None, freezeAuthority = Some payer_wallet\<rparr>"
proof -
  let ?w = "example_world [] (payment_from payer_wallet DEV_WALLET 110000000)"
  let ?p = "\<lparr>publicKey = payer_wallet, secretKey = []\<rparr>"
  have s: "\<And>opts. status (fst (create_token ?w (example_request (JObject opts)))) = 200"
    by (simp add: handler_defs check_defs example_defs split: sum.splits)
  have "token_effects ?w
     (snd (create_token ?w (example_request (JObject [(''revokeMint'', JBool False),
                                    (''revokeFreeze'', JBool False)]))))
     ''mint-address'' =
     Some \<lparr>mintAuthority = Some payer_wallet, freezeAuthority = Some payer_wallet\<rparr>"
    using create_token_authorities [of ?w "example_request (JObject [(''revokeMint'', JBool False),
        (''revokeFreeze'', JBool False)])" ?p "''mint-address''" "JBool False" "JBool False", OF s]
    by (simp add: example_world_def example_request_def)
  moreover have "token_effects ?w
     (snd (create_token ?w (example_request (JObject [(''revokeMint'', JBool True),
                                    (''revokeFreeze'', JBool False)]))))
     ''mint-address'' =
     Some \<lparr>mintAuthority = None, freezeAuthority = Some payer_wallet\<rparr>"
    using create_token_authorities [of ?w "example_request (JObject [(''revokeMint'', JBool True),
        (''revokeFreeze'', JBool False)])" ?p "''mint-address''" "JBool True" "JBool False", OF s]
    by (simp add: example_world_def example_request_def)
  ultimately show ?thesis by simp
qed



text \<open>
  Claim C10.  /calculate-fee treats an option that is absent from the body as one that is
  false, and for a body in which each of the four options is absent or false it answers the
  base fee.
\<close>

theorem absent_options_cost_nothing:
  "calculate_fee (body\<lparr>revokeMint := JUndefined\<rparr>) = calculate_fee (body\<lparr>revokeMint := JBool False\<rparr>)
   \<and> calculate_fee (body\<lparr>revokeFreeze := JUndefined\<rparr>)
       = calculate_fee (body\<lparr>revokeFreeze := JBool False\<rparr>)
   \<and> calculate_fee (body\<lparr>revokeMetadata := JUndefined\<rparr>)
       = calculate_fee (body\<lparr>revokeMetadata := JBool False\<rparr>)
   \<and> calculate_fee (body\<lparr>customMetadata := JUndefined\<rparr>)
       = calculate_fee (body\<lparr>customMetadata := JBool False\<rparr>)
   \<and> ((\<forall>v\<in>set [revokeMint body, revokeFreeze body, revokeMetadata body, customMetadata body].
          v = JUndefined \<or> v = JBool False)
      \<longrightarrow> calculate_fee body = \<lparr>status = 200, payload = TotalFee BASE_FEE_SOL\<rparr>)"
  by (auto simp: calculate_fee_def json_response_def)

theorem absent_options_cost_nothing_witness:
  "calculate_fee \<lparr>revokeMint = JUndefined, revokeFreeze = JUndefined,
       revokeMetadata = JUndefined, customMetadata = JUndefined\<rparr>
     = \<lparr>status = 200, payload = TotalFee BASE_FEE_SOL\<rparr>"
  using absent_options_cost_nothing [of "\<lparr>revokeMint = JUndefined, revokeFreeze = JUndefined,
       revokeMetadata = JUndefined, customMetadata = JUndefined\<rparr>",
       THEN conjunct2, THEN conjunct2, THEN conjunct2, THEN conjunct2]
  by simp

end
